theory Spec2Isabelle
  imports Main "HOL-Library.Char_ord" "HOL-Library.List_Lexorder"
begin

section \<open>Values shared by the two scripts\<close>

text \<open>
  The repository holds two stand-alone Python scripts,
  \<^verbatim>\<open>scripts/generate_vscode_debug_launches.py\<close> (the launch-configuration
  synchroniser) and \<^verbatim>\<open>scripts/generate_structure_doc.py\<close> (the structure
  document generator). Both are embedded here as pure functions from the part of the
  file system they read to an outcome and the file system they leave behind.

  Python strings are modelled as \<^typ>\<open>string\<close>, a list of 8-bit characters (the
  UTF-8 bytes of the text; their lexicographic order is the order of Python's strings,
  which compares code points). What \<^verbatim>\<open>print\<close> sends to the console is not
  modelled; an exception raised while evaluating the argument of a \<^verbatim>\<open>print\<close>
  is.
\<close>

subsection \<open>JSON values as \<^verbatim>\<open>json.load\<close> returns them\<close>

text \<open>
  A Python \<^verbatim>\<open>dict\<close> keeps its keys in insertion order, and that order
  shows in the file \<^verbatim>\<open>json.dump\<close> writes, so an object is an association
  list. A float is carried as its literal: neither script looks inside one.
\<close>

datatype json =
    JNull
  | JBool bool
  | JInt int
  | JFloat string
  | JStr string
  | JArr "json list"
  | JObj "(string \<times> json) list"

text \<open>The exceptions a run can end with; \<open>SystemExit n\<close> is \<^verbatim>\<open>exit(n)\<close>.\<close>

datatype error =
    JSONDecodeError
  | AttributeError
  | TypeError
  | KeyError
  | NotADirectoryError
  | SystemExit nat

datatype outcome = Completed | Raised error

text \<open>
  The exit status of the interpreter: 0 when the script runs to its end, the argument of
  \<^verbatim>\<open>exit\<close>, and 1 after an uncaught exception.
\<close>

fun exit_status :: "outcome \<Rightarrow> nat" where
  "exit_status Completed = 0"
| "exit_status (Raised (SystemExit n)) = n"
| "exit_status (Raised _) = 1"

subsection \<open>Operations of Python on these values\<close>

text \<open>\<^verbatim>\<open>d.get(k, default)\<close> on a dict.\<close>

definition dict_get :: "(string \<times> json) list \<Rightarrow> string \<Rightarrow> json \<Rightarrow> json" where
  "dict_get kvs k dflt = (case map_of kvs k of None \<Rightarrow> dflt | Some v \<Rightarrow> v)"

text \<open>
  \<^verbatim>\<open>d[k] = v\<close> on a dict: an existing key keeps its place, a new key goes to
  the end.
\<close>

fun dict_set :: "(string \<times> json) list \<Rightarrow> string \<Rightarrow> json \<Rightarrow> (string \<times> json) list" where
  "dict_set [] k v = [(k, v)]"
| "dict_set ((k', v') # kvs) k v =
     (if k' = k then (k, v) # kvs else (k', v') # dict_set kvs k v)"

text \<open>\<^verbatim>\<open>x.get(k, default)\<close> on any value: only a dict has the attribute.\<close>

fun py_get :: "json \<Rightarrow> string \<Rightarrow> json \<Rightarrow> error + json" where
  "py_get (JObj kvs) k dflt = Inr (dict_get kvs k dflt)"
| "py_get _ k dflt = Inl AttributeError"

text \<open>\<^verbatim>\<open>x[k]\<close> with a string key \<open>k\<close>.\<close>

fun py_getitem :: "json \<Rightarrow> string \<Rightarrow> error + json" where
  "py_getitem (JObj kvs) k = (case map_of kvs k of None \<Rightarrow> Inl KeyError | Some v \<Rightarrow> Inr v)"
| "py_getitem _ k = Inl TypeError"

text \<open>\<^verbatim>\<open>x[k] = v\<close> with a string key \<open>k\<close>.\<close>

fun py_setitem :: "json \<Rightarrow> string \<Rightarrow> json \<Rightarrow> error + json" where
  "py_setitem (JObj kvs) k v = Inr (JObj (dict_set kvs k v))"
| "py_setitem _ k v = Inl TypeError"

text \<open>\<^verbatim>\<open>len(x)\<close>.\<close>

fun py_len :: "json \<Rightarrow> error + nat" where
  "py_len (JArr xs) = Inr (length xs)"
| "py_len (JStr s) = Inr (length s)"
| "py_len (JObj kvs) = Inr (length kvs)"
| "py_len _ = Inl TypeError"

text \<open>
  The items \<^verbatim>\<open>for cfg in x\<close> runs through: the elements of a list, the
  characters of a string, the keys of a dict.
\<close>

fun py_iter :: "json \<Rightarrow> error + json list" where
  "py_iter (JArr xs) = Inr xs"
| "py_iter (JStr s) = Inr (map (\<lambda>c. JStr [c]) s)"
| "py_iter (JObj kvs) = Inr (map (\<lambda>kv. JStr (fst kv)) kvs)"
| "py_iter _ = Inl TypeError"

text \<open>\<^verbatim>\<open>s.replace("\\", "/")\<close>, with \<open>0x5C\<close> the backslash.\<close>

definition replace_backslash :: "string \<Rightarrow> string" where
  "replace_backslash s = map (\<lambda>c. if c = CHR 0x5C then CHR ''/'' else c) s"

text \<open>
  \<^verbatim>\<open>s.lower()\<close>, on the ASCII letters. (On UTF-8 text the other characters
  are bytes from \<open>0x80\<close> up, before and after lowercasing, apart from two code
  points: the Kelvin sign becomes \<open>k\<close>, which does not occur in the lowercased
  build directory, and the dotted capital I becomes \<open>i\<close> followed by a combining
  dot, which cannot be followed by the \<open>l\<close> the build directory has there. So the
  comparison below gives the result Python gives.)
\<close>

definition lower_char :: "char \<Rightarrow> char" where
  "lower_char c =
     (if CHR ''A'' \<le> c \<and> c \<le> CHR ''Z'' then char_of (of_char c + (32::nat)) else c)"

definition lower :: "string \<Rightarrow> string" where
  "lower s = map lower_char s"

text \<open>\<^verbatim>\<open>s.startswith(p)\<close> and \<^verbatim>\<open>s.endswith(p)\<close>.\<close>

definition startswith :: "string \<Rightarrow> string \<Rightarrow> bool" where
  "startswith s p = (take (length p) s = p)"

definition endswith :: "string \<Rightarrow> string \<Rightarrow> bool" where
  "endswith s p = (length p \<le> length s \<and> drop (length s - length p) s = p)"

text \<open>\<^verbatim>\<open>needle in hay\<close> on strings: a search from the left.\<close>

fun str_contains :: "string \<Rightarrow> string \<Rightarrow> bool" where
  "str_contains needle [] = (needle = [])"
| "str_contains needle (c # cs) = (startswith (c # cs) needle \<or> str_contains needle cs)"

text \<open>
  \<^verbatim>\<open>os.path.join(a, b)\<close> of \<^verbatim>\<open>posixpath\<close>. (On Windows a name that
  \<^verbatim>\<open>os.listdir\<close> returns is joined with a backslash, which the script replaces
  by a slash at once, so the path it builds is the same.)
\<close>

definition os_path_join :: "string \<Rightarrow> string \<Rightarrow> string" where
  "os_path_join a b =
     (if startswith b ''/'' then b
      else if a = [] \<or> endswith a ''/'' then a @ b
      else a @ ''/'' @ b)"

section \<open>The launch-configuration synchroniser\<close>

subsection \<open>The file system it works on\<close>

text \<open>
  \<^verbatim>\<open>launch.json\<close> is held as what \<^verbatim>\<open>json.load\<close> makes of it: the
  parsed value, or the raw text when it does not parse. \<^verbatim>\<open>json.dump\<close> followed
  by \<^verbatim>\<open>json.load\<close> gives back the value that was written, so the file a run
  writes is the value the next run reads.
\<close>

datatype file_content = Unparseable string | Document json

text \<open>The \<^verbatim>\<open>.vscode\<close> directory: absent, or there with or without \<^verbatim>\<open>launch.json\<close>.\<close>

datatype vscode = NoVscodeDir | VscodeDir "file_content option"

text \<open>
  What is at \<^verbatim>\<open>build/AthenaTests\<close>: something that is not a directory, or a
  directory whose listing, in the order \<^verbatim>\<open>os.listdir\<close> returns it, gives each
  name with the answer of \<^verbatim>\<open>os.path.isfile\<close> for it.
\<close>

datatype build_node = NotADirectory | Directory "(string \<times> bool) list"

record fs =
  vscode_dir :: vscode
  build_path :: "build_node option"

fun launch_file :: "fs \<Rightarrow> file_content option" where
  "launch_file s = (case vscode_dir s of NoVscodeDir \<Rightarrow> None | VscodeDir f \<Rightarrow> f)"

subsection \<open>The script\<close>

definition build_dir :: string where
  "build_dir = ''build/AthenaTests''"

text \<open>Lines 22 to 28: load \<^verbatim>\<open>launch.json\<close> or start a new structure.\<close>

definition load_data :: "fs \<Rightarrow> error + json" where
  "load_data s =
     (case launch_file s of
        None \<Rightarrow> Inr (JObj [(''version'', JStr ''0.2.0''), (''configurations'', JArr [])])
      | Some (Unparseable txt) \<Rightarrow> Inl JSONDecodeError
      | Some (Document data) \<Rightarrow>
          (case py_get data ''configurations'' (JArr []) of
             Inl e \<Rightarrow> Inl e
           | Inr v \<Rightarrow> (case py_len v of Inl e \<Rightarrow> Inl e | Inr n \<Rightarrow> Inr data)))"

text \<open>Lines 34 to 38.\<close>

fun is_test_program :: "json \<Rightarrow> bool" where
  "is_test_program (JStr program) =
     str_contains (lower (replace_backslash build_dir)) (lower (replace_backslash program))"
| "is_test_program _ = False"

text \<open>
  Lines 40 to 43, the comprehension over the items of
  \<^verbatim>\<open>data["configurations"]\<close>: it stops at the first item without a
  \<^verbatim>\<open>get\<close>.
\<close>

fun preserved_configs :: "json list \<Rightarrow> error + json list" where
  "preserved_configs [] = Inr []"
| "preserved_configs (cfg # cfgs) =
     (case py_get cfg ''program'' (JStr '''') of
        Inl e \<Rightarrow> Inl e
      | Inr program \<Rightarrow>
          (case preserved_configs cfgs of
             Inl e \<Rightarrow> Inl e
           | Inr kept \<Rightarrow> Inr (if \<not> is_test_program program then cfg # kept else kept)))"

text \<open>Lines 58 to 61.\<close>

definition test_executables :: "(string \<times> bool) list \<Rightarrow> string list" where
  "test_executables all_files =
     map fst (filter (\<lambda>(f, isfile). endswith f ''.exe'' \<and> isfile) all_files)"

text \<open>Lines 71 to 90, the configuration made for one executable.\<close>

definition make_config :: "string \<Rightarrow> json" where
  "make_config exe =
     (let exe_path = replace_backslash (os_path_join build_dir exe) in
      JObj [
        (''name'', JStr (''Debug '' @ exe)),
        (''type'', JStr ''cppdbg''),
        (''request'', JStr ''launch''),
        (''program'', JStr (''${workspaceFolder}/'' @ exe_path)),
        (''args'', JArr []),
        (''stopAtEntry'', JBool False),
        (''cwd'', JStr (''${workspaceFolder}/'' @ build_dir)),
        (''environment'', JArr []),
        (''externalConsole'', JBool True),
        (''MIMode'', JStr ''gdb''),
        (''setupCommands'', JArr [
           JObj [(''text'', JStr ''-gdb-set new-console on'')],
           JObj [(''text'', JStr ''-enable-pretty-printing'')]]),
        (''preLaunchTask'', JStr ''build'')])"

text \<open>Lines 69 to 92, the loop that appends one configuration for each executable.\<close>

fun test_configs :: "string list \<Rightarrow> json list" where
  "test_configs [] = []"
| "test_configs (exe # exes) = make_config exe # test_configs exes"

text \<open>
  Everything up to line 98: the value of \<^verbatim>\<open>data\<close> that is about to be written,
  or the exception that ends the run before. Nothing is written up to here.
\<close>

definition new_data :: "fs \<Rightarrow> error + json" where
  "new_data s =
     (case load_data s of
        Inl e \<Rightarrow> Inl e
      | Inr data \<Rightarrow>
     (case py_getitem data ''configurations'' of
        Inl e \<Rightarrow> Inl e
      | Inr v \<Rightarrow>
     (case py_iter v of
        Inl e \<Rightarrow> Inl e
      | Inr cfgs \<Rightarrow>
     (case preserved_configs cfgs of
        Inl e \<Rightarrow> Inl e
      | Inr kept \<Rightarrow>
     (case build_path s of
        None \<Rightarrow> Inl (SystemExit 1)
      | Some NotADirectory \<Rightarrow> Inl NotADirectoryError
      | Some (Directory all_files) \<Rightarrow>
          py_setitem data ''configurations''
            (JArr (kept @ test_configs (test_executables all_files))))))))"

text \<open>
  Lines 99 to 102: \<^verbatim>\<open>os.makedirs\<close> and the \<^verbatim>\<open>json.dump\<close> into
  \<^verbatim>\<open>launch.json\<close>, the only write of the script.
\<close>

definition write_launch_file :: "json \<Rightarrow> fs \<Rightarrow> fs" where
  "write_launch_file data s = s\<lparr>vscode_dir := VscodeDir (Some (Document data))\<rparr>"

text \<open>One run of the script: how it ends and the file system it leaves.\<close>

definition generate_vscode_debug_launches :: "fs \<Rightarrow> outcome \<times> fs" where
  "generate_vscode_debug_launches s =
     (case new_data s of
        Inl e \<Rightarrow> (Raised e, s)
      | Inr data \<Rightarrow> (Completed, write_launch_file data s))"

subsection \<open>What a run is observed by\<close>

text \<open>
  The condition of line 42 on one configuration: its \<^verbatim>\<open>program\<close>, or the empty
  string when it has none, is a test program. A configuration for which it holds is a
  stale one.
\<close>

definition references_build_dir :: "json \<Rightarrow> bool" where
  "references_build_dir cfg =
     (case py_get cfg ''program'' (JStr '''') of
        Inl e \<Rightarrow> False
      | Inr program \<Rightarrow> is_test_program program)"

text \<open>\<^verbatim>\<open>isinstance(x, dict)\<close>: the values that have a \<^verbatim>\<open>get\<close>.\<close>

fun is_dict :: "json \<Rightarrow> bool" where
  "is_dict (JObj kvs) = True"
| "is_dict _ = False"

text \<open>
  The configurations \<^verbatim>\<open>launch.json\<close> holds, as the script runs through them:
  none when the file is absent or does not parse, or when it has nothing to run through
  under the key.
\<close>

definition configurations :: "fs \<Rightarrow> json list" where
  "configurations s =
     (case launch_file s of
        Some (Document data) \<Rightarrow>
          (case py_getitem data ''configurations'' of
             Inl e \<Rightarrow> []
           | Inr v \<Rightarrow> (case py_iter v of Inl e \<Rightarrow> [] | Inr cfgs \<Rightarrow> cfgs))
      | _ \<Rightarrow> [])"

text \<open>The executables the run discovers: none when the build directory cannot be listed.\<close>

definition discovered_executables :: "fs \<Rightarrow> string list" where
  "discovered_executables s =
     (case build_path s of
        Some (Directory all_files) \<Rightarrow> test_executables all_files
      | _ \<Rightarrow> [])"

text \<open>A name \<^verbatim>\<open>os.listdir\<close> can return: not empty, and without a slash.\<close>

definition entry_name :: "string \<Rightarrow> bool" where
  "entry_name f = (f \<noteq> [] \<and> CHR ''/'' \<notin> set f)"

section \<open>The structure document generator\<close>

subsection \<open>The file system it works on\<close>

text \<open>
  A node of the tree under a target directory: a directory with its listing, in the
  order \<^verbatim>\<open>os.listdir\<close> returns it, or anything for which
  \<^verbatim>\<open>os.path.isdir\<close> is false.
\<close>

datatype tree = File | Dir "(string \<times> tree) list"

text \<open>The \<^verbatim>\<open>docs\<close> directory: absent, or there with or without the output file.\<close>

datatype docs = NoDocsDir | DocsDir "string option"

text \<open>\<open>children p folder\<close> is what lies at \<^verbatim>\<open>parent_dir/folder\<close>, if anything.\<close>

record project =
  children :: "string \<Rightarrow> tree option"
  docs_dir :: docs

subsection \<open>The script\<close>

text \<open>
  Lines 3 to 12. The argument \<open>listing\<close> is the listing of the directory
  \<^verbatim>\<open>root\<close>; \<open>sort_key fst\<close> is \<^verbatim>\<open>sorted\<close> on the names, in the
  lexicographic order of their characters.
\<close>

function generate_file_structure :: "(string \<times> tree) list \<Rightarrow> string \<Rightarrow> string list" where
  "generate_file_structure listing prefix =
     concat (map (\<lambda>(item, node).
        case node of
          Dir sub \<Rightarrow>
            (prefix @ ''- '' @ item @ ''/'') # generate_file_structure sub (prefix @ ''  '')
        | File \<Rightarrow> [prefix @ ''- '' @ item])
       (sort_key fst listing))"
  by pat_completeness auto
termination
proof (relation "measure (\<lambda>(listing, prefix). size_list (size_prod (\<lambda>_. 0) size) listing)")
  show "wf (measure (\<lambda>(listing, prefix). size_list (size_prod (\<lambda>_. 0) size) listing))"
    by simp
next
  fix listing :: "(string \<times> tree) list" and prefix :: string and x item node sub
  assume "x \<in> set (sort_key fst listing)" "(item, node) = x" "node = Dir sub"
  then have "(item, Dir sub) \<in> set listing"
    by simp
  then have "size_list (size_prod (\<lambda>_. 0) size) sub
             < size_list (size_prod (\<lambda>_. 0) size) listing"
    by (induction listing) auto
  then show "((sub, prefix @ ''  ''), (listing, prefix))
             \<in> measure (\<lambda>(listing, prefix). size_list (size_prod (\<lambda>_. 0) size) listing)"
    by simp
qed

declare generate_file_structure.simps [simp del]

definition target_dirs :: "string list" where
  "target_dirs = [''src'', ''tests'']"

text \<open>
  Lines 21 to 28, the body of the loop: the lines one target folder adds to
  \<^verbatim>\<open>output_lines\<close>. \<^verbatim>\<open>os.listdir\<close> raises on a path that exists and is not
  a directory.
\<close>

definition folder_lines :: "project \<Rightarrow> string \<Rightarrow> error + string list" where
  "folder_lines p folder =
     (case children p folder of
        Some (Dir listing) \<Rightarrow>
          Inr ([''## `'' @ folder @ ''/`''] @ generate_file_structure listing '''' @ [''''])
      | Some File \<Rightarrow> Inl NotADirectoryError
      | None \<Rightarrow> Inr [''## `'' @ folder @ ''/` not found.'' @ [CHR 0x0A]])"

text \<open>Lines 20 to 28, the loop over the target folders.\<close>

fun scan_targets :: "project \<Rightarrow> string list \<Rightarrow> string list \<Rightarrow> error + string list" where
  "scan_targets p [] output_lines = Inr output_lines"
| "scan_targets p (folder # folders) output_lines =
     (case folder_lines p folder of
        Inl e \<Rightarrow> Inl e
      | Inr ls \<Rightarrow> scan_targets p folders (output_lines @ ls))"

text \<open>\<^verbatim>\<open>"\n".join(lines)\<close>.\<close>

fun join_lines :: "string list \<Rightarrow> string" where
  "join_lines [] = []"
| "join_lines [l] = l"
| "join_lines (l # ls) = l @ [CHR 0x0A] @ join_lines ls"

text \<open>
  Lines 14 to 37: \<^verbatim>\<open>main\<close>, with the \<^verbatim>\<open>os.makedirs\<close> and the write of the
  output file at its end.
\<close>

definition main :: "project \<Rightarrow> outcome \<times> project" where
  "main p =
     (case scan_targets p target_dirs [''# Current Code Directory Structure'' @ [CHR 0x0A]] of
        Inl e \<Rightarrow> (Raised e, p)
      | Inr output_lines \<Rightarrow> (Completed, p\<lparr>docs_dir := DocsDir (Some (join_lines output_lines))\<rparr>))"

subsection \<open>The rendering as the specification words it\<close>

text \<open>Two spaces for each level of nesting below the target root.\<close>

definition indent :: "nat \<Rightarrow> string" where
  "indent depth = concat (replicate depth ''  '')"

text \<open>The line of one entry at a depth: a directory's name is followed by a slash.\<close>

fun entry_line :: "nat \<Rightarrow> string \<Rightarrow> tree \<Rightarrow> string" where
  "entry_line depth name (Dir sub) = indent depth @ ''- '' @ name @ ''/''"
| "entry_line depth name File = indent depth @ ''- '' @ name"

text \<open>
  The entries of a directory in ascending order of name, files and directories alike,
  each with its line, a directory followed by its own entries one level deeper.
\<close>

function structure_lines :: "nat \<Rightarrow> (string \<times> tree) list \<Rightarrow> string list" where
  "structure_lines depth listing =
     concat (map (\<lambda>(name, node).
        entry_line depth name node #
          (case node of Dir sub \<Rightarrow> structure_lines (Suc depth) sub | File \<Rightarrow> []))
       (sort_key fst listing))"
  by pat_completeness auto
termination
proof (relation "measure (\<lambda>(depth, listing). size_list (size_prod (\<lambda>_. 0) size) listing)")
  show "wf (measure (\<lambda>(depth, listing). size_list (size_prod (\<lambda>_. 0) size) listing))"
    by simp
next
  fix depth :: nat and listing :: "(string \<times> tree) list" and x name node sub
  assume "x \<in> set (sort_key fst listing)" "(name, node) = x" "node = Dir sub"
  then have "(name, Dir sub) \<in> set listing"
    by simp
  then have "size_list (size_prod (\<lambda>_. 0) size) sub
             < size_list (size_prod (\<lambda>_. 0) size) listing"
    by (induction listing) auto
  then show "((Suc depth, sub), (depth, listing))
             \<in> measure (\<lambda>(depth, listing). size_list (size_prod (\<lambda>_. 0) size) listing)"
    by simp
qed

declare structure_lines.simps [simp del]

section \<open>Inputs the properties are exercised on\<close>

text \<open>
  A configuration that has nothing to do with the build-output directory, and one that a
  former run has left, its path written with backslashes and another case.
\<close>

definition unrelated_config :: json where
  "unrelated_config =
     JObj [(''name'', JStr ''Run tool''), (''type'', JStr ''cppdbg''),
           (''request'', JStr ''launch''),
           (''program'', JStr ''${workspaceFolder}/bin/tool.exe'')]"

definition stale_program :: string where
  "stale_program =
     ''${workspaceFolder}'' @ [CHR 0x5C] @ ''Build'' @ [CHR 0x5C] @ ''ATHENATESTS''
       @ [CHR 0x5C] @ ''Old.exe''"

definition stale_config :: json where
  "stale_config =
     JObj [(''name'', JStr ''Debug Old.exe''), (''type'', JStr ''cppdbg''),
           (''request'', JStr ''launch''), (''program'', JStr stale_program)]"

text \<open>A configuration without a program, and one whose program is a number.\<close>

definition attach_config :: json where
  "attach_config = JObj [(''name'', JStr ''Attach''), (''request'', JStr ''attach'')]"

definition odd_config :: json where
  "odd_config = JObj [(''name'', JStr ''Odd''), (''program'', JInt 7)]"

definition example_document :: "(string \<times> json) list" where
  "example_document =
     [(''version'', JStr ''0.2.0''),
      (''configurations'', JArr [unrelated_config, stale_config, attach_config, odd_config])]"

text \<open>
  A build-output directory with one executable, a text file and a directory whose name
  ends like an executable's.
\<close>

definition example_fs :: fs where
  "example_fs =
     \<lparr>vscode_dir = VscodeDir (Some (Document (JObj example_document))),
      build_path = Some (Directory [(''New.exe'', True), (''notes.txt'', True),
                                    (''sub.exe'', False)])\<rparr>"

text \<open>The same file, next to a build-output directory without an executable.\<close>

definition example_fs_no_executable :: fs where
  "example_fs_no_executable =
     example_fs\<lparr>build_path := Some (Directory [(''notes.txt'', True), (''sub.exe'', False)])\<rparr>"

text \<open>The same file, without a build-output directory.\<close>

definition example_fs_no_build :: fs where
  "example_fs_no_build = example_fs\<lparr>build_path := None\<rparr>"

text \<open>A file that parses and has no \<^verbatim>\<open>configurations\<close>.\<close>

definition example_fs_no_key :: fs where
  "example_fs_no_key =
     example_fs\<lparr>vscode_dir := VscodeDir (Some (Document (JObj [(''version'', JStr ''0.2.0'')])))\<rparr>"

text \<open>No \<^verbatim>\<open>launch.json\<close>, and the two executables of the specification's scenario.\<close>

definition example_fs_fresh :: fs where
  "example_fs_fresh =
     \<lparr>vscode_dir = NoVscodeDir,
      build_path = Some (Directory [(''App.exe'', True), (''Tests.exe'', True)])\<rparr>"

text \<open>
  A file as a former run on a build-output directory with \<^verbatim>\<open>New.exe\<close> has left
  it, next to the same directory.
\<close>

definition example_fs_rerun :: fs where
  "example_fs_rerun =
     \<lparr>vscode_dir = VscodeDir (Some (Document (JObj
        [(''version'', JStr ''0.2.0''),
         (''configurations'', JArr [unrelated_config, make_config ''New.exe''])]))),
      build_path = Some (Directory [(''New.exe'', True)])\<rparr>"

text \<open>
  A tree with a directory between two files, and a project that has it as
  \<^verbatim>\<open>src\<close> and has no \<^verbatim>\<open>tests\<close>.
\<close>

definition example_listing :: "(string \<times> tree) list" where
  "example_listing =
     [(''main.cpp'', File),
      (''Makefile'', File),
      (''core'', Dir [(''z.h'', File), (''a'', Dir []), (''b.cpp'', File)])]"

definition example_project :: project where
  "example_project =
     \<lparr>children = (\<lambda>folder. if folder = ''src'' then Some (Dir example_listing) else None),
      docs_dir = NoDocsDir\<rparr>"

section \<open>Properties of the launch-configuration synchroniser\<close>

subsection \<open>Which exceptions the steps raise\<close>

lemma py_get_error: "py_get x k dflt = Inl e \<Longrightarrow> e = AttributeError"
  by (cases x) simp_all

lemma py_len_error: "py_len x = Inl e \<Longrightarrow> e = TypeError"
  by (cases x) simp_all

lemma py_iter_error: "py_iter x = Inl e \<Longrightarrow> e = TypeError"
  by (cases x) simp_all

lemma py_getitem_error: "py_getitem x k = Inl e \<Longrightarrow> e = KeyError \<or> e = TypeError"
  by (cases x) (simp_all split: option.splits)

lemma py_setitem_error: "py_setitem x k v = Inl e \<Longrightarrow> e = TypeError"
  by (cases x) simp_all

lemma preserved_configs_error: "preserved_configs cfgs = Inl e \<Longrightarrow> e = AttributeError"
proof (induction cfgs)
  case Nil
  then show ?case by simp
next
  case (Cons cfg cfgs)
  then show ?case
    by (auto split: sum.splits dest: py_get_error)
qed

lemma load_data_error:
  "load_data s = Inl e \<Longrightarrow> e = JSONDecodeError \<or> e = AttributeError \<or> e = TypeError"
  by (auto simp: load_data_def split: option.splits file_content.splits sum.splits
           dest: py_get_error py_len_error)

lemma new_data_error:
  assumes "new_data s = Inl e"
  shows "e \<in> {JSONDecodeError, AttributeError, TypeError, KeyError, NotADirectoryError,
              SystemExit 1}"
  using assms
  by (auto simp: new_data_def split: sum.splits option.splits build_node.splits
           dest: load_data_error py_getitem_error py_iter_error preserved_configs_error
                 py_setitem_error)

lemma new_data_exit_status: "new_data s = Inl e \<Longrightarrow> exit_status (Raised e) = 1"
  by (drule new_data_error) auto

lemma new_data_missing_build_dir: "build_path s = None \<Longrightarrow> \<exists>e. new_data s = Inl e"
  by (simp add: new_data_def split: sum.splits)

subsection \<open>The steps of the script\<close>

lemma test_configs_map: "test_configs exes = map make_config exes"
  by (induction exes) simp_all

lemma preserved_configs_filter:
  "preserved_configs cfgs =
     (if list_all is_dict cfgs
      then Inr (filter (\<lambda>cfg. \<not> references_build_dir cfg) cfgs)
      else Inl AttributeError)"
proof (induction cfgs)
  case Nil
  then show ?case by simp
next
  case (Cons cfg cfgs)
  then show ?case
    by (cases cfg) (simp_all add: references_build_dir_def)
qed

lemma startswith_iff: "startswith s p \<longleftrightarrow> (\<exists>suf. s = p @ suf)"
proof
  assume "startswith s p"
  then have "s = p @ drop (length p) s"
    by (metis append_take_drop_id startswith_def)
  then show "\<exists>suf. s = p @ suf" ..
next
  assume "\<exists>suf. s = p @ suf"
  then show "startswith s p"
    by (auto simp: startswith_def)
qed

lemma str_contains_iff: "str_contains needle hay \<longleftrightarrow> (\<exists>pre suf. hay = pre @ needle @ suf)"
proof (induction hay)
  case Nil
  then show ?case by auto
next
  case (Cons c cs)
  show ?case
  proof
    assume "str_contains needle (c # cs)"
    then consider "startswith (c # cs) needle" | "str_contains needle cs"
      by auto
    then show "\<exists>pre suf. c # cs = pre @ needle @ suf"
    proof cases
      case 1
      then obtain suf where "c # cs = needle @ suf"
        using startswith_iff by blast
      then have "c # cs = [] @ needle @ suf" by simp
      then show ?thesis by blast
    next
      case 2
      then obtain pre suf where "cs = pre @ needle @ suf"
        using Cons.IH by blast
      then have "c # cs = (c # pre) @ needle @ suf" by simp
      then show ?thesis by blast
    qed
  next
    assume "\<exists>pre suf. c # cs = pre @ needle @ suf"
    then obtain pre suf where eq: "c # cs = pre @ needle @ suf"
      by blast
    show "str_contains needle (c # cs)"
    proof (cases pre)
      case Nil
      with eq have "startswith (c # cs) needle"
        using startswith_iff by auto
      then show ?thesis by simp
    next
      case (Cons d pre')
      with eq have "cs = pre' @ needle @ suf" by simp
      then have "str_contains needle cs"
        using Cons.IH by blast
      then show ?thesis by simp
    qed
  qed
qed

lemma normalized_build_dir: "lower (replace_backslash build_dir) = ''build/athenatests''"
  by code_simp

lemma normalize_append:
  "lower (replace_backslash (a @ b)) = lower (replace_backslash a) @ lower (replace_backslash b)"
  by (simp add: lower_def replace_backslash_def)

lemma replace_backslash_idem: "replace_backslash (replace_backslash a) = replace_backslash a"
  by (simp add: replace_backslash_def)

lemma join_build_dir:
  assumes "entry_name exe"
  shows "os_path_join build_dir exe = build_dir @ ''/'' @ exe"
proof -
  from assms have "\<not> startswith exe ''/''"
    by (cases exe) (auto simp: entry_name_def startswith_def)
  moreover have "build_dir \<noteq> []" "\<not> endswith build_dir ''/''"
    by (simp_all add: build_dir_def endswith_def)
  ultimately show ?thesis
    by (simp add: os_path_join_def)
qed

lemma make_config_program:
  "py_get (make_config exe) ''program'' dflt =
     Inr (JStr (''${workspaceFolder}/'' @ replace_backslash (os_path_join build_dir exe)))"
  by (simp add: make_config_def dict_get_def Let_def)

lemma make_config_is_dict: "is_dict (make_config exe)"
  by (simp add: make_config_def Let_def)

lemma make_config_references_build_dir:
  assumes "entry_name exe"
  shows "references_build_dir (make_config exe)"
proof -
  let ?n = "\<lambda>x. lower (replace_backslash x)"
  have "?n (''${workspaceFolder}/'' @ replace_backslash (os_path_join build_dir exe))
        = ?n ''${workspaceFolder}/'' @ ?n build_dir @ ?n (''/'' @ exe)"
    using join_build_dir [OF assms]
    by (simp only: normalize_append replace_backslash_idem)
  then have "str_contains (?n build_dir)
        (?n (''${workspaceFolder}/'' @ replace_backslash (os_path_join build_dir exe)))"
    using str_contains_iff by blast
  then show ?thesis
    by (simp add: references_build_dir_def make_config_program)
qed

lemma map_of_dict_set: "map_of (dict_set kvs k v) k = Some v"
  by (induction kvs) auto

lemma dict_set_idem: "dict_set (dict_set kvs k v) k v = dict_set kvs k v"
  by (induction kvs) auto

lemma load_data_absent:
  "launch_file s = None \<Longrightarrow>
   load_data s = Inr (JObj [(''version'', JStr ''0.2.0''), (''configurations'', JArr [])])"
  by (simp add: load_data_def)

lemma load_data_document:
  assumes "launch_file s = Some (Document data)" "load_data s = Inr data'"
  shows "data' = data"
  using assms by (auto simp: load_data_def split: sum.splits)

lemma load_data_list:
  assumes "launch_file s = Some (Document (JObj kvs))"
    and "map_of kvs ''configurations'' = Some (JArr cfgs)"
  shows "load_data s = Inr (JObj kvs)"
  using assms by (simp add: load_data_def dict_get_def)

lemma configurations_absent: "launch_file s = None \<Longrightarrow> configurations s = []"
  by (simp add: configurations_def)

lemma configurations_written:
  "configurations (write_launch_file (JObj (dict_set kvs ''configurations'' (JArr cfgs))) s) = cfgs"
  by (simp add: configurations_def write_launch_file_def map_of_dict_set)

text \<open>What a run that reaches the write has read, and what it is about to write.\<close>

lemma new_data_result:
  assumes "new_data s = Inr data'"
  shows "\<exists>kvs all_files.
           build_path s = Some (Directory all_files)
         \<and> list_all is_dict (configurations s)
         \<and> load_data s = Inr (JObj kvs)
         \<and> data' = JObj (dict_set kvs ''configurations''
              (JArr (filter (\<lambda>cfg. \<not> references_build_dir cfg) (configurations s)
                     @ map make_config (test_executables all_files))))"
proof -
  from assms obtain data v cfgs kept all_files where
    load: "load_data s = Inr data"
    and item: "py_getitem data ''configurations'' = Inr v"
    and iter: "py_iter v = Inr cfgs"
    and kept: "preserved_configs cfgs = Inr kept"
    and build: "build_path s = Some (Directory all_files)"
    and set: "py_setitem data ''configurations''
                (JArr (kept @ test_configs (test_executables all_files))) = Inr data'"
    by (auto simp: new_data_def split: sum.splits option.splits build_node.splits)
  from item obtain kvs where data: "data = JObj kvs"
    by (cases data) simp_all
  from kept have dicts: "list_all is_dict cfgs"
    and kept_eq: "kept = filter (\<lambda>cfg. \<not> references_build_dir cfg) cfgs"
    by (simp_all add: preserved_configs_filter split: if_splits)
  have cfgs: "configurations s = cfgs"
  proof (cases "launch_file s")
    case None
    with load data item iter show ?thesis
      by (auto simp: load_data_absent configurations_absent)
  next
    case (Some f)
    with load obtain d where f: "f = Document d"
      by (cases f) (simp_all add: load_data_def)
    with Some load have "d = data"
      using load_data_document by blast
    with Some f item iter show ?thesis
      by (simp add: configurations_def)
  qed
  from set data kept_eq cfgs
  have "data' = JObj (dict_set kvs ''configurations''
              (JArr (filter (\<lambda>cfg. \<not> references_build_dir cfg) (configurations s)
                     @ map make_config (test_executables all_files))))"
    by (simp add: test_configs_map)
  with build dicts cfgs load data show ?thesis
    by blast
qed

text \<open>A well-formed file and a build directory that can be listed: the run reaches the write.\<close>

lemma new_data_total:
  assumes "load_data s = Inr (JObj kvs)"
    and "map_of kvs ''configurations'' = Some (JArr cfgs)"
    and "list_all is_dict cfgs"
    and "build_path s = Some (Directory all_files)"
  shows "new_data s = Inr (JObj (dict_set kvs ''configurations''
           (JArr (filter (\<lambda>cfg. \<not> references_build_dir cfg) cfgs
                  @ map make_config (test_executables all_files)))))"
  using assms
  by (simp add: new_data_def preserved_configs_filter test_configs_map)

text \<open>A run that ends with an exception has written nothing.\<close>

lemma raised_run_writes_nothing:
  "generate_vscode_debug_launches s = (Raised e, s') \<Longrightarrow> s' = s"
  by (auto simp: generate_vscode_debug_launches_def split: sum.splits)

lemma filter_kept_fresh:
  assumes "\<forall>x \<in> set fresh. \<not> P x"
  shows "filter P (filter P cfgs @ fresh) = filter P cfgs"
  using assms by (simp add: filter_empty_conv)

lemma empty_program_not_test: "\<not> is_test_program (JStr [])"
  by code_simp

subsection \<open>The claims\<close>

text \<open>
  C1, as the claim is worded, asks that every existing configuration that references
  the build-output directory be absent from the result. That fails whenever the run makes
  anew a configuration equal to one it removes, as every run after the first does: here
  the existing entry for \<^verbatim>\<open>New.exe\<close> references the build-output directory and is
  in the list the run writes.
\<close>

theorem stale_entry_regenerated_counterexample:
  "fst (generate_vscode_debug_launches example_fs_rerun) = Completed
   \<and> configurations example_fs_rerun = [unrelated_config, make_config ''New.exe'']
   \<and> py_getitem (make_config ''New.exe'') ''program''
       = Inr (JStr ''${workspaceFolder}/build/AthenaTests/New.exe'')
   \<and> references_build_dir (make_config ''New.exe'')
   \<and> configurations (snd (generate_vscode_debug_launches example_fs_rerun))
       = [unrelated_config, make_config ''New.exe'']
   \<and> make_config ''New.exe''
       \<in> set (configurations (snd (generate_vscode_debug_launches example_fs_rerun)))"
proof -
  have run: "fst (generate_vscode_debug_launches example_fs_rerun) = Completed"
    by code_simp
  have before: "configurations example_fs_rerun = [unrelated_config, make_config ''New.exe'']"
    by code_simp
  have program: "py_getitem (make_config ''New.exe'') ''program''
       = Inr (JStr ''${workspaceFolder}/build/AthenaTests/New.exe'')"
    by code_simp
  have stale: "references_build_dir (make_config ''New.exe'')"
    by code_simp
  have after: "configurations (snd (generate_vscode_debug_launches example_fs_rerun))
       = [unrelated_config, make_config ''New.exe'']"
    by code_simp
  have "make_config ''New.exe''
       \<in> set (configurations (snd (generate_vscode_debug_launches example_fs_rerun)))"
    unfolding after by simp
  with run before program stale after show ?thesis
    by (intro conjI)
qed

text \<open>
  C1, amended. A run that writes \<^verbatim>\<open>launch.json\<close> leaves in it, under
  \<^verbatim>\<open>configurations\<close>, the list made of the existing configurations that do not
  reference the build-output directory, unchanged and in their order, followed by one
  new configuration for each discovered executable, in the order of discovery. No
  existing configuration that references the build-output directory is among the ones
  carried over: such a configuration is in the result only where it is equal to one the
  run has made anew.
\<close>

theorem written_configurations:
  assumes "generate_vscode_debug_launches s = (Completed, s')"
  shows "\<exists>kept fresh data.
           kept = filter (\<lambda>cfg. \<not> references_build_dir cfg) (configurations s)
         \<and> fresh = map make_config (discovered_executables s)
         \<and> launch_file s' = Some (Document data)
         \<and> py_getitem data ''configurations'' = Inr (JArr (kept @ fresh))
         \<and> configurations s' = kept @ fresh
         \<and> (\<forall>cfg \<in> set (configurations s). references_build_dir cfg \<longrightarrow> cfg \<notin> set kept)
         \<and> (\<forall>cfg \<in> set (configurations s).
               references_build_dir cfg \<and> cfg \<in> set (configurations s') \<longrightarrow> cfg \<in> set fresh)"
proof -
  from assms obtain data where new: "new_data s = Inr data"
    and s': "s' = write_launch_file data s"
    by (auto simp: generate_vscode_debug_launches_def split: sum.splits)
  from new_data_result [OF new] obtain kvs all_files where
    build: "build_path s = Some (Directory all_files)"
    and data: "data = JObj (dict_set kvs ''configurations''
              (JArr (filter (\<lambda>cfg. \<not> references_build_dir cfg) (configurations s)
                     @ map make_config (test_executables all_files))))"
    by blast
  let ?kept = "filter (\<lambda>cfg. \<not> references_build_dir cfg) (configurations s)"
  let ?fresh = "map make_config (discovered_executables s)"
  from build have fresh: "map make_config (test_executables all_files) = ?fresh"
    by (simp add: discovered_executables_def)
  have written: "launch_file s' = Some (Document data)"
    by (simp add: s' write_launch_file_def)
  have item: "py_getitem data ''configurations'' = Inr (JArr (?kept @ ?fresh))"
    by (simp add: data fresh map_of_dict_set)
  have after: "configurations s' = ?kept @ ?fresh"
    unfolding s' data fresh by (rule configurations_written)
  have carried: "\<forall>cfg \<in> set (configurations s). references_build_dir cfg \<longrightarrow> cfg \<notin> set ?kept"
    by simp
  have anew: "\<forall>cfg \<in> set (configurations s).
      references_build_dir cfg \<and> cfg \<in> set (configurations s') \<longrightarrow> cfg \<in> set ?fresh"
    unfolding after by auto
  from written item after carried anew show ?thesis
    by blast
qed

theorem written_configurations_witness:
  "generate_vscode_debug_launches example_fs
     = (Completed, snd (generate_vscode_debug_launches example_fs))
   \<and> configurations (snd (generate_vscode_debug_launches example_fs))
     = [unrelated_config, attach_config, odd_config, make_config ''New.exe'']"
proof -
  have run: "generate_vscode_debug_launches example_fs
     = (Completed, snd (generate_vscode_debug_launches example_fs))"
    by code_simp
  have kept: "filter (\<lambda>cfg. \<not> references_build_dir cfg) (configurations example_fs)
     = [unrelated_config, attach_config, odd_config]"
    by code_simp
  have fresh: "map make_config (discovered_executables example_fs) = [make_config ''New.exe'']"
    by code_simp
  from written_configurations [OF run] kept fresh run show ?thesis
    by auto
qed

text \<open>
  C2. With a \<^verbatim>\<open>launch.json\<close> that holds a list \<open>C\<close> of configurations and a
  build-output directory that exists and has no qualifying executable, the run writes
  the file, and the list it writes is the subsequence of \<open>C\<close> of the configurations
  that do not reference the build-output directory: nothing is added.
\<close>

theorem no_executable_only_removes:
  assumes "launch_file s = Some (Document (JObj kvs))"
    and "map_of kvs ''configurations'' = Some (JArr C)"
    and "list_all is_dict C"
    and "build_path s = Some (Directory all_files)"
    and "test_executables all_files = []"
  shows "generate_vscode_debug_launches s
           = (Completed,
              write_launch_file
                (JObj (dict_set kvs ''configurations''
                   (JArr (filter (\<lambda>cfg. \<not> references_build_dir cfg) C)))) s)
         \<and> configurations (snd (generate_vscode_debug_launches s))
           = filter (\<lambda>cfg. \<not> references_build_dir cfg) C"
proof -
  from assms(1,2) have "load_data s = Inr (JObj kvs)"
    by (rule load_data_list)
  from new_data_total [OF this assms(2,3,4)] assms(5)
  have "new_data s = Inr (JObj (dict_set kvs ''configurations''
          (JArr (filter (\<lambda>cfg. \<not> references_build_dir cfg) C))))"
    by simp
  then show ?thesis
    by (simp add: generate_vscode_debug_launches_def configurations_written)
qed

theorem no_executable_only_removes_witness:
  "launch_file example_fs_no_executable = Some (Document (JObj example_document))
   \<and> list_all is_dict [unrelated_config, stale_config, attach_config, odd_config]
   \<and> test_executables [(''notes.txt'', True), (''sub.exe'', False)] = []
   \<and> configurations (snd (generate_vscode_debug_launches example_fs_no_executable))
     = [unrelated_config, attach_config, odd_config]"
proof -
  have a: "launch_file example_fs_no_executable = Some (Document (JObj example_document))"
    by code_simp
  have b: "map_of example_document ''configurations''
     = Some (JArr [unrelated_config, stale_config, attach_config, odd_config])"
    by code_simp
  have c: "list_all is_dict [unrelated_config, stale_config, attach_config, odd_config]"
    by code_simp
  have d: "build_path example_fs_no_executable
     = Some (Directory [(''notes.txt'', True), (''sub.exe'', False)])"
    by code_simp
  have e: "test_executables [(''notes.txt'', True), (''sub.exe'', False)] = []"
    by code_simp
  have f: "filter (\<lambda>cfg. \<not> references_build_dir cfg)
       [unrelated_config, stale_config, attach_config, odd_config]
     = [unrelated_config, attach_config, odd_config]"
    by code_simp
  have "configurations (snd (generate_vscode_debug_launches example_fs_no_executable))
     = filter (\<lambda>cfg. \<not> references_build_dir cfg)
         [unrelated_config, stale_config, attach_config, odd_config]"
    using no_executable_only_removes [OF a b c d e] by (rule conjunct2)
  also note f
  finally have g: "configurations (snd (generate_vscode_debug_launches example_fs_no_executable))
     = [unrelated_config, attach_config, odd_config]" .
  from a c e g show ?thesis
    by (intro conjI)
qed

text \<open>
  C4. A configuration is stale, and left out of the preserved ones, exactly when it has
  a \<^verbatim>\<open>program\<close> that is a string which, once its backslashes are replaced by
  slashes and its letters lowercased, has the build-output directory, normalised the
  same way, as a substring. Otherwise it is preserved.
\<close>

theorem stale_iff_normalized_substring:
  "(references_build_dir (JObj kvs) \<longleftrightarrow>
      (\<exists>program pre suf.
          map_of kvs ''program'' = Some (JStr program)
        \<and> lower (replace_backslash program) = pre @ lower (replace_backslash build_dir) @ suf))
   \<and> preserved_configs [JObj kvs]
       = Inr (if references_build_dir (JObj kvs) then [] else [JObj kvs])
   \<and> lower (replace_backslash build_dir) = ''build/athenatests''"
proof -
  have "references_build_dir (JObj kvs) \<longleftrightarrow>
      (\<exists>program pre suf.
          map_of kvs ''program'' = Some (JStr program)
        \<and> lower (replace_backslash program) = pre @ lower (replace_backslash build_dir) @ suf)"
  proof (cases "map_of kvs ''program''")
    case None
    then have "\<not> references_build_dir (JObj kvs)"
      using empty_program_not_test
      by (simp add: references_build_dir_def dict_get_def del: is_test_program.simps)
    with None show ?thesis by simp
  next
    case (Some v)
    show ?thesis
    proof (cases v)
      case (JStr program)
      with Some show ?thesis
        by (simp add: references_build_dir_def dict_get_def str_contains_iff)
    qed (use Some in \<open>simp_all add: references_build_dir_def dict_get_def\<close>)
  qed
  moreover have "preserved_configs [JObj kvs]
       = Inr (if references_build_dir (JObj kvs) then [] else [JObj kvs])"
    by (simp add: preserved_configs_filter)
  ultimately show ?thesis
    using normalized_build_dir by blast
qed

theorem stale_iff_normalized_substring_witness:
  "references_build_dir stale_config
   \<and> preserved_configs [stale_config] = Inr []
   \<and> \<not> references_build_dir unrelated_config
   \<and> preserved_configs [unrelated_config] = Inr [unrelated_config]"
proof -
  have s: "map_of [(''name'', JStr ''Debug Old.exe''), (''type'', JStr ''cppdbg''),
           (''request'', JStr ''launch''), (''program'', JStr stale_program)] ''program''
     = Some (JStr stale_program)"
    by simp
  have n: "lower (replace_backslash stale_program)
     = ''${workspacefolder}/'' @ lower (replace_backslash build_dir) @ ''/old.exe''"
    by code_simp
  have u: "\<not> references_build_dir unrelated_config"
    by code_simp
  from stale_iff_normalized_substring
    [of "[(''name'', JStr ''Debug Old.exe''), (''type'', JStr ''cppdbg''),
           (''request'', JStr ''launch''), (''program'', JStr stale_program)]"]
    stale_iff_normalized_substring
    [of "[(''name'', JStr ''Run tool''), (''type'', JStr ''cppdbg''),
           (''request'', JStr ''launch''),
           (''program'', JStr ''${workspaceFolder}/bin/tool.exe'')]"]
    s n u
  show ?thesis
    unfolding stale_config_def unrelated_config_def by (simp; blast)
qed

text \<open>
  C5. A second run right after a run that wrote \<^verbatim>\<open>launch.json\<close>, on the same
  build-output directory listed in the same order, writes the file the first run wrote:
  the configurations it makes are the ones it has just removed. (The names in the
  listing are names of directory entries, so they hold no slash.)
\<close>

theorem second_run_writes_the_same:
  assumes "generate_vscode_debug_launches s = (Completed, s1)"
    and "list_all entry_name (discovered_executables s)"
  shows "generate_vscode_debug_launches s1 = (Completed, s1)
         \<and> configurations (snd (generate_vscode_debug_launches s1)) = configurations s1"
proof -
  from assms(1) obtain data where new: "new_data s = Inr data"
    and s1: "s1 = write_launch_file data s"
    by (auto simp: generate_vscode_debug_launches_def split: sum.splits)
  from new_data_result [OF new] obtain kvs all_files where
    build: "build_path s = Some (Directory all_files)"
    and dicts: "list_all is_dict (configurations s)"
    and data: "data = JObj (dict_set kvs ''configurations''
              (JArr (filter (\<lambda>cfg. \<not> references_build_dir cfg) (configurations s)
                     @ map make_config (test_executables all_files))))"
    by blast
  let ?P = "\<lambda>cfg. \<not> references_build_dir cfg"
  let ?kept = "filter ?P (configurations s)"
  let ?fresh = "map make_config (test_executables all_files)"
  let ?kvs1 = "dict_set kvs ''configurations'' (JArr (?kept @ ?fresh))"
  from assms(2) build have names: "\<forall>exe \<in> set (test_executables all_files). entry_name exe"
    by (simp add: discovered_executables_def list_all_iff)
  then have stale: "\<forall>cfg \<in> set ?fresh. \<not> ?P cfg"
    by (auto intro: make_config_references_build_dir)
  have file1: "launch_file s1 = Some (Document (JObj ?kvs1))"
    by (simp add: s1 data write_launch_file_def)
  have key1: "map_of ?kvs1 ''configurations'' = Some (JArr (?kept @ ?fresh))"
    by (rule map_of_dict_set)
  have load1: "load_data s1 = Inr (JObj ?kvs1)"
    using file1 key1 by (rule load_data_list)
  have dicts1: "list_all is_dict (?kept @ ?fresh)"
    using dicts by (auto simp: list_all_iff make_config_is_dict)
  have build1: "build_path s1 = Some (Directory all_files)"
    by (simp add: s1 write_launch_file_def build)
  have "new_data s1 = Inr (JObj (dict_set ?kvs1 ''configurations''
          (JArr (filter ?P (?kept @ ?fresh) @ ?fresh))))"
    using load1 key1 dicts1 build1 by (rule new_data_total)
  also have "filter ?P (?kept @ ?fresh) = ?kept"
    using stale by (rule filter_kept_fresh)
  also have "dict_set ?kvs1 ''configurations'' (JArr (?kept @ ?fresh)) = ?kvs1"
    by (rule dict_set_idem)
  finally have "new_data s1 = Inr data"
    by (simp only: data)
  moreover have "write_launch_file data s1 = s1"
    by (simp add: s1 write_launch_file_def)
  ultimately have "generate_vscode_debug_launches s1 = (Completed, s1)"
    by (simp add: generate_vscode_debug_launches_def)
  then show ?thesis
    by simp
qed

theorem second_run_writes_the_same_witness:
  "list_all entry_name (discovered_executables example_fs)
   \<and> generate_vscode_debug_launches (snd (generate_vscode_debug_launches example_fs))
     = (Completed, snd (generate_vscode_debug_launches example_fs))"
proof -
  have run: "generate_vscode_debug_launches example_fs
     = (Completed, snd (generate_vscode_debug_launches example_fs))"
    by code_simp
  have names: "list_all entry_name (discovered_executables example_fs)"
    by code_simp
  have "generate_vscode_debug_launches (snd (generate_vscode_debug_launches example_fs))
     = (Completed, snd (generate_vscode_debug_launches example_fs))"
    using second_run_writes_the_same [OF run names] by (rule conjunct1)
  with names show ?thesis
    by (intro conjI)
qed

text \<open>
  C9. A \<^verbatim>\<open>launch.json\<close> that parses to an object without the key
  \<^verbatim>\<open>configurations\<close> ends the run with a \<^verbatim>\<open>KeyError\<close> before anything
  is written: the file system is left as it was. The empty list of configurations is
  what the run starts from only when the file is absent.
\<close>

theorem missing_key_raises:
  assumes "launch_file s = Some (Document (JObj kvs))"
    and "map_of kvs ''configurations'' = None"
  shows "generate_vscode_debug_launches s = (Raised KeyError, s)
         \<and> (\<forall>t. launch_file t = None \<longrightarrow>
               load_data t = Inr (JObj [(''version'', JStr ''0.2.0''),
                                        (''configurations'', JArr [])]))"
proof -
  from assms have "load_data s = Inr (JObj kvs)"
    by (simp add: load_data_def dict_get_def)
  with assms(2) have "new_data s = Inl KeyError"
    by (simp add: new_data_def)
  then show ?thesis
    by (simp add: generate_vscode_debug_launches_def load_data_absent)
qed

theorem missing_key_raises_witness:
  "launch_file example_fs_no_key = Some (Document (JObj [(''version'', JStr ''0.2.0'')]))
   \<and> map_of [(''version'', JStr ''0.2.0'')] ''configurations'' = None
   \<and> generate_vscode_debug_launches example_fs_no_key = (Raised KeyError, example_fs_no_key)
   \<and> launch_file example_fs_fresh = None
   \<and> load_data example_fs_fresh
     = Inr (JObj [(''version'', JStr ''0.2.0''), (''configurations'', JArr [])])"
proof -
  have a: "launch_file example_fs_no_key = Some (Document (JObj [(''version'', JStr ''0.2.0'')]))"
    by code_simp
  have b: "map_of [(''version'', JStr ''0.2.0'')] ''configurations'' = None"
    by simp
  have c: "launch_file example_fs_fresh = None"
    by code_simp
  from missing_key_raises [OF a b] a b c show ?thesis
    by blast
qed

text \<open>
  C10. An existing configuration that has no \<^verbatim>\<open>program\<close>, or one that is not a
  string, is never taken for a stale one, and it is among the configurations of
  \<^verbatim>\<open>launch.json\<close> after the run as it was before, whether the run writes the file
  or ends before.
\<close>

theorem no_string_program_is_preserved:
  assumes "JObj kvs \<in> set (configurations s)"
    and "map_of kvs ''program'' = None
         \<or> (\<exists>v. map_of kvs ''program'' = Some v \<and> (\<forall>program. v \<noteq> JStr program))"
  shows "\<not> references_build_dir (JObj kvs)
         \<and> preserved_configs [JObj kvs] = Inr [JObj kvs]
         \<and> JObj kvs \<in> set (configurations (snd (generate_vscode_debug_launches s)))"
proof -
  from assms(2) have keep: "\<not> references_build_dir (JObj kvs)"
  proof
    assume "map_of kvs ''program'' = None"
    then show ?thesis
      using empty_program_not_test
      by (simp add: references_build_dir_def dict_get_def del: is_test_program.simps)
  next
    assume "\<exists>v. map_of kvs ''program'' = Some v \<and> (\<forall>program. v \<noteq> JStr program)"
    then obtain v where "map_of kvs ''program'' = Some v" "\<forall>program. v \<noteq> JStr program"
      by blast
    then show ?thesis
      by (cases v) (simp_all add: references_build_dir_def dict_get_def)
  qed
  then have one: "preserved_configs [JObj kvs] = Inr [JObj kvs]"
    by (simp add: preserved_configs_filter)
  have "JObj kvs \<in> set (configurations (snd (generate_vscode_debug_launches s)))"
  proof (cases "new_data s")
    case (Inl e)
    with assms(1) show ?thesis
      by (simp add: generate_vscode_debug_launches_def)
  next
    case (Inr data)
    from new_data_result [OF this] obtain kvs' all_files where
      "data = JObj (dict_set kvs' ''configurations''
              (JArr (filter (\<lambda>cfg. \<not> references_build_dir cfg) (configurations s)
                     @ map make_config (test_executables all_files))))"
      by blast
    then have "configurations (write_launch_file data s)
         = filter (\<lambda>cfg. \<not> references_build_dir cfg) (configurations s)
           @ map make_config (test_executables all_files)"
      by (simp only: configurations_written)
    with assms(1) keep Inr show ?thesis
      by (simp add: generate_vscode_debug_launches_def)
  qed
  with keep one show ?thesis
    by blast
qed

theorem no_string_program_is_preserved_witness:
  "attach_config \<in> set (configurations example_fs)
   \<and> odd_config \<in> set (configurations example_fs)
   \<and> attach_config \<in> set (configurations (snd (generate_vscode_debug_launches example_fs)))
   \<and> odd_config \<in> set (configurations (snd (generate_vscode_debug_launches example_fs)))"
proof -
  have cfgs: "configurations example_fs
     = [unrelated_config, stale_config, attach_config, odd_config]"
    by code_simp
  have a: "JObj [(''name'', JStr ''Attach''), (''request'', JStr ''attach'')]
      \<in> set (configurations example_fs)"
    unfolding cfgs by (simp add: attach_config_def)
  have b: "JObj [(''name'', JStr ''Odd''), (''program'', JInt 7)]
      \<in> set (configurations example_fs)"
    unfolding cfgs by (simp add: odd_config_def)
  have c: "map_of [(''name'', JStr ''Attach''), (''request'', JStr ''attach'')] ''program'' = None
      \<or> (\<exists>v. map_of [(''name'', JStr ''Attach''), (''request'', JStr ''attach'')] ''program''
                = Some v \<and> (\<forall>program. v \<noteq> JStr program))"
    by simp
  have d: "map_of [(''name'', JStr ''Odd''), (''program'', JInt 7)] ''program'' = None
      \<or> (\<exists>v. map_of [(''name'', JStr ''Odd''), (''program'', JInt 7)] ''program''
                = Some v \<and> (\<forall>program. v \<noteq> JStr program))"
    by simp
  from no_string_program_is_preserved [OF a c] no_string_program_is_preserved [OF b d] a b
  show ?thesis
    unfolding attach_config_def odd_config_def by blast
qed

text \<open>
  C6. Without a \<^verbatim>\<open>launch.json\<close>, and with a build-output directory that holds
  exactly the regular files \<^verbatim>\<open>App.exe\<close> and \<^verbatim>\<open>Tests.exe\<close>, listed in
  either order, the run writes a file with the version \<^verbatim>\<open>0.2.0\<close> and exactly two
  configurations, one for each executable in the order of the listing, named
  \<^verbatim>\<open>Debug App.exe\<close> and \<^verbatim>\<open>Debug Tests.exe\<close>, with the request
  \<^verbatim>\<open>launch\<close> and a program that ends in the name of the executable.
\<close>

theorem fresh_file_two_executables:
  assumes "launch_file s = None"
    and "build_path s = Some (Directory [(a, True), (b, True)])"
    and "(a, b) = (''App.exe'', ''Tests.exe'') \<or> (a, b) = (''Tests.exe'', ''App.exe'')"
  shows "\<exists>data cfg_a cfg_b.
           generate_vscode_debug_launches s = (Completed, write_launch_file data s)
         \<and> launch_file (snd (generate_vscode_debug_launches s)) = Some (Document data)
         \<and> configurations (snd (generate_vscode_debug_launches s)) = [cfg_a, cfg_b]
         \<and> py_getitem data ''version'' = Inr (JStr ''0.2.0'')
         \<and> py_getitem data ''configurations'' = Inr (JArr [cfg_a, cfg_b])
         \<and> py_getitem cfg_a ''name'' = Inr (JStr (''Debug '' @ a))
         \<and> py_getitem cfg_b ''name'' = Inr (JStr (''Debug '' @ b))
         \<and> py_getitem cfg_a ''request'' = Inr (JStr ''launch'')
         \<and> py_getitem cfg_b ''request'' = Inr (JStr ''launch'')
         \<and> py_getitem cfg_a ''program'' = Inr (JStr (''${workspaceFolder}/build/AthenaTests/'' @ a))
         \<and> py_getitem cfg_b ''program'' = Inr (JStr (''${workspaceFolder}/build/AthenaTests/'' @ b))
         \<and> endswith (''${workspaceFolder}/build/AthenaTests/'' @ a) a
         \<and> endswith (''${workspaceFolder}/build/AthenaTests/'' @ b) b"
proof -
  have exes: "test_executables [(a, True), (b, True)] = [a, b]"
    using assms(3) by (auto simp: test_executables_def endswith_def)
  have load: "load_data s
      = Inr (JObj [(''version'', JStr ''0.2.0''), (''configurations'', JArr [])])"
    using assms(1) by (rule load_data_absent)
  have "new_data s = Inr (JObj (dict_set
          [(''version'', JStr ''0.2.0''), (''configurations'', JArr [])] ''configurations''
          (JArr (filter (\<lambda>cfg. \<not> references_build_dir cfg) []
                 @ map make_config (test_executables [(a, True), (b, True)])))))"
    using load _ _ assms(2) by (rule new_data_total) simp_all
  then have new: "new_data s
      = Inr (JObj [(''version'', JStr ''0.2.0''),
                   (''configurations'', JArr [make_config a, make_config b])])"
    by (simp add: exes)
  have path_app: "replace_backslash (os_path_join build_dir ''App.exe'')
      = ''build/AthenaTests/'' @ ''App.exe''"
    by code_simp
  have path_tests: "replace_backslash (os_path_join build_dir ''Tests.exe'')
      = ''build/AthenaTests/'' @ ''Tests.exe''"
    by code_simp
  have path: "replace_backslash (os_path_join build_dir a) = ''build/AthenaTests/'' @ a"
    "replace_backslash (os_path_join build_dir b) = ''build/AthenaTests/'' @ b"
    using assms(3) path_app path_tests by auto
  have prog: "py_getitem (make_config a) ''program''
        = Inr (JStr (''${workspaceFolder}/build/AthenaTests/'' @ a))"
    "py_getitem (make_config b) ''program''
        = Inr (JStr (''${workspaceFolder}/build/AthenaTests/'' @ b))"
    by (simp_all add: make_config_def Let_def path)
  have name: "\<And>exe. py_getitem (make_config exe) ''name'' = Inr (JStr (''Debug '' @ exe))"
    by (simp add: make_config_def Let_def)
  have req: "\<And>exe. py_getitem (make_config exe) ''request'' = Inr (JStr ''launch'')"
    by (simp add: make_config_def Let_def)
  have ends: "\<And>pre exe. endswith (pre @ exe) exe"
    by (simp add: endswith_def)
  from new have run: "generate_vscode_debug_launches s
      = (Completed, write_launch_file (JObj [(''version'', JStr ''0.2.0''),
                   (''configurations'', JArr [make_config a, make_config b])]) s)"
    by (simp add: generate_vscode_debug_launches_def)
  have "launch_file (snd (generate_vscode_debug_launches s))
      = Some (Document (JObj [(''version'', JStr ''0.2.0''),
                   (''configurations'', JArr [make_config a, make_config b])]))"
    unfolding run by (simp add: write_launch_file_def)
  moreover have "configurations (snd (generate_vscode_debug_launches s))
      = [make_config a, make_config b]"
    unfolding run by (simp add: configurations_def write_launch_file_def)
  moreover note run
  moreover have "py_getitem (JObj [(''version'', JStr ''0.2.0''),
                   (''configurations'', JArr [make_config a, make_config b])]) ''version''
      = Inr (JStr ''0.2.0'')"
    by simp
  moreover have "py_getitem (JObj [(''version'', JStr ''0.2.0''),
                   (''configurations'', JArr [make_config a, make_config b])]) ''configurations''
      = Inr (JArr [make_config a, make_config b])"
    by simp
  ultimately show ?thesis
    using prog name req ends by blast
qed

theorem fresh_file_two_executables_witness:
  "launch_file example_fs_fresh = None
   \<and> build_path example_fs_fresh = Some (Directory [(''App.exe'', True), (''Tests.exe'', True)])
   \<and> (\<exists>data cfg_a cfg_b.
         fst (generate_vscode_debug_launches example_fs_fresh) = Completed
       \<and> launch_file (snd (generate_vscode_debug_launches example_fs_fresh))
           = Some (Document data)
       \<and> configurations (snd (generate_vscode_debug_launches example_fs_fresh))
           = [cfg_a, cfg_b]
       \<and> py_getitem data ''version'' = Inr (JStr ''0.2.0'')
       \<and> py_getitem data ''configurations'' = Inr (JArr [cfg_a, cfg_b])
       \<and> py_getitem cfg_a ''name'' = Inr (JStr ''Debug App.exe'')
       \<and> py_getitem cfg_b ''name'' = Inr (JStr ''Debug Tests.exe'')
       \<and> py_getitem cfg_a ''program''
           = Inr (JStr ''${workspaceFolder}/build/AthenaTests/App.exe'')
       \<and> py_getitem cfg_b ''program''
           = Inr (JStr ''${workspaceFolder}/build/AthenaTests/Tests.exe''))"
proof -
  have a: "launch_file example_fs_fresh = None"
    by code_simp
  have b: "build_path example_fs_fresh
     = Some (Directory [(''App.exe'', True), (''Tests.exe'', True)])"
    by code_simp
  have c: "(''App.exe'', ''Tests.exe'') = (''App.exe'', ''Tests.exe'')
     \<or> (''App.exe'', ''Tests.exe'') = (''Tests.exe'', ''App.exe'')"
    by simp
  from fresh_file_two_executables [OF a b c] obtain data cfg_a cfg_b where
    "generate_vscode_debug_launches example_fs_fresh
       = (Completed, write_launch_file data example_fs_fresh)"
    "launch_file (snd (generate_vscode_debug_launches example_fs_fresh)) = Some (Document data)"
    "configurations (snd (generate_vscode_debug_launches example_fs_fresh)) = [cfg_a, cfg_b]"
    "py_getitem data ''version'' = Inr (JStr ''0.2.0'')"
    "py_getitem data ''configurations'' = Inr (JArr [cfg_a, cfg_b])"
    "py_getitem cfg_a ''name'' = Inr (JStr (''Debug '' @ ''App.exe''))"
    "py_getitem cfg_b ''name'' = Inr (JStr (''Debug '' @ ''Tests.exe''))"
    "py_getitem cfg_a ''program''
       = Inr (JStr (''${workspaceFolder}/build/AthenaTests/'' @ ''App.exe''))"
    "py_getitem cfg_b ''program''
       = Inr (JStr (''${workspaceFolder}/build/AthenaTests/'' @ ''Tests.exe''))"
    by blast
  then have "\<exists>data cfg_a cfg_b.
         fst (generate_vscode_debug_launches example_fs_fresh) = Completed
       \<and> launch_file (snd (generate_vscode_debug_launches example_fs_fresh))
           = Some (Document data)
       \<and> configurations (snd (generate_vscode_debug_launches example_fs_fresh))
           = [cfg_a, cfg_b]
       \<and> py_getitem data ''version'' = Inr (JStr ''0.2.0'')
       \<and> py_getitem data ''configurations'' = Inr (JArr [cfg_a, cfg_b])
       \<and> py_getitem cfg_a ''name'' = Inr (JStr ''Debug App.exe'')
       \<and> py_getitem cfg_b ''name'' = Inr (JStr ''Debug Tests.exe'')
       \<and> py_getitem cfg_a ''program''
           = Inr (JStr ''${workspaceFolder}/build/AthenaTests/App.exe'')
       \<and> py_getitem cfg_b ''program''
           = Inr (JStr ''${workspaceFolder}/build/AthenaTests/Tests.exe'')"
    by (intro exI [of _ data] exI [of _ cfg_a] exI [of _ cfg_b]) simp
  with a b show ?thesis
    by (intro conjI)
qed

text \<open>
  C3. When the build-output directory does not exist, the run ends with a non-zero exit
  status and writes nothing: the file system after the run, \<^verbatim>\<open>launch.json\<close>
  included, is the one before it, so an existing file keeps its content and a missing one
  is not created.
\<close>

theorem missing_build_dir_no_write:
  assumes "build_path s = None"
  shows "exit_status (fst (generate_vscode_debug_launches s)) \<noteq> 0
         \<and> snd (generate_vscode_debug_launches s) = s"
proof -
  from assms obtain e where e: "new_data s = Inl e"
    using new_data_missing_build_dir by blast
  then have "exit_status (Raised e) = 1"
    by (rule new_data_exit_status)
  with e show ?thesis
    by (simp add: generate_vscode_debug_launches_def)
qed

text \<open>
  The run on a well-formed \<^verbatim>\<open>launch.json\<close> without a build-output directory: it
  passes lines 22 to 43 and ends at the \<^verbatim>\<open>exit(1)\<close> of line 53, and the file is
  the document it was.
\<close>

theorem missing_build_dir_no_write_witness:
  "build_path example_fs_no_build = None
   \<and> fst (generate_vscode_debug_launches example_fs_no_build) = Raised (SystemExit 1)
   \<and> exit_status (fst (generate_vscode_debug_launches example_fs_no_build)) \<noteq> 0
   \<and> snd (generate_vscode_debug_launches example_fs_no_build) = example_fs_no_build
   \<and> launch_file (snd (generate_vscode_debug_launches example_fs_no_build))
       = Some (Document (JObj example_document))"
proof -
  have missing: "build_path example_fs_no_build = None"
    by code_simp
  have raised: "fst (generate_vscode_debug_launches example_fs_no_build) = Raised (SystemExit 1)"
    by code_simp
  have before: "launch_file example_fs_no_build = Some (Document (JObj example_document))"
    by code_simp
  note run = missing_build_dir_no_write [OF missing]
  from run have status: "exit_status (fst (generate_vscode_debug_launches example_fs_no_build)) \<noteq> 0"
    by (rule conjunct1)
  from run have same: "snd (generate_vscode_debug_launches example_fs_no_build) = example_fs_no_build"
    by (rule conjunct2)
  from before same
  have "launch_file (snd (generate_vscode_debug_launches example_fs_no_build))
       = Some (Document (JObj example_document))"
    by (simp only:)
  with missing raised status same show ?thesis
    by (intro conjI)
qed

section \<open>Properties of the structure document generator\<close>

lemma indent_Suc: "indent (Suc depth) = indent depth @ ''  ''"
proof -
  have "concat (replicate depth ''  '') @ ''  '' = ''  '' @ concat (replicate depth ''  '')"
    by (induction depth) simp_all
  then show ?thesis
    by (simp add: indent_def)
qed

lemma generate_file_structure_indent:
  "generate_file_structure listing (indent depth) = structure_lines depth listing"
proof (induction depth listing rule: structure_lines.induct)
  case (1 depth listing)
  have "map (\<lambda>(item, node).
          case node of
            Dir sub \<Rightarrow> (indent depth @ ''- '' @ item @ ''/'')
                          # generate_file_structure sub (indent depth @ ''  '')
          | File \<Rightarrow> [indent depth @ ''- '' @ item]) (sort_key fst listing)
      = map (\<lambda>(name, node).
          entry_line depth name node #
            (case node of Dir sub \<Rightarrow> structure_lines (Suc depth) sub | File \<Rightarrow> []))
          (sort_key fst listing)"
  proof (rule map_cong [OF refl])
    fix x
    assume x: "x \<in> set (sort_key fst listing)"
    obtain name node where xeq: "x = (name, node)"
      by (cases x)
    show "(case x of (item, node) \<Rightarrow>
             (case node of
                Dir sub \<Rightarrow> (indent depth @ ''- '' @ item @ ''/'')
                              # generate_file_structure sub (indent depth @ ''  '')
              | File \<Rightarrow> [indent depth @ ''- '' @ item]))
        = (case x of (name, node) \<Rightarrow>
             entry_line depth name node #
               (case node of Dir sub \<Rightarrow> structure_lines (Suc depth) sub | File \<Rightarrow> []))"
    proof (cases node)
      case File
      with xeq show ?thesis by simp
    next
      case (Dir sub)
      with "1.IH" [OF x xeq [symmetric] Dir] xeq show ?thesis
        by (simp add: indent_Suc)
    qed
  qed
  then show ?case
    by (subst generate_file_structure.simps, subst structure_lines.simps) (simp only:)
qed

lemma example_listing_lines:
  "generate_file_structure example_listing []
     = [''- Makefile'', ''- core/'', ''  - a/'', ''  - b.cpp'', ''  - z.h'', ''- main.cpp'']"
proof -
  have leaf: "generate_file_structure [] ''    '' = []"
    by (subst generate_file_structure.simps) simp
  have core: "generate_file_structure [(''z.h'', File), (''a'', Dir []), (''b.cpp'', File)] ''  ''
      = [''  - a/'', ''  - b.cpp'', ''  - z.h'']"
    by (subst generate_file_structure.simps) (simp add: leaf)
  show ?thesis
    by (subst generate_file_structure.simps) (simp add: example_listing_def core)
qed

text \<open>
  C7. The lines made for a directory are those of its entries in ascending
  lexicographic order of name, files and directories in one order; a directory gives
  the line \<^verbatim>\<open><indent>- <name>/\<close>, followed by the lines of its own entries one level
  deeper, and a file gives the line \<^verbatim>\<open><indent>- <name>\<close>, where the indent is two
  spaces for each level below the target root.
\<close>

theorem structure_in_name_order:
  "generate_file_structure listing [] = structure_lines 0 listing
   \<and> generate_file_structure listing (indent depth) = structure_lines depth listing
   \<and> structure_lines depth listing
       = concat (map (\<lambda>(name, node).
           entry_line depth name node #
             (case node of Dir sub \<Rightarrow> structure_lines (Suc depth) sub | File \<Rightarrow> []))
           (sort_key fst listing))
   \<and> sorted (map fst (sort_key fst listing))
   \<and> set (sort_key fst listing) = set listing
   \<and> length (sort_key fst listing) = length listing
   \<and> entry_line depth name (Dir sub) = concat (replicate depth ''  '') @ ''- '' @ name @ ''/''
   \<and> entry_line depth name File = concat (replicate depth ''  '') @ ''- '' @ name"
proof -
  have "generate_file_structure listing (indent 0) = structure_lines 0 listing"
    by (rule generate_file_structure_indent)
  then have "generate_file_structure listing [] = structure_lines 0 listing"
    by (simp add: indent_def)
  moreover have "structure_lines depth listing
       = concat (map (\<lambda>(name, node).
           entry_line depth name node #
             (case node of Dir sub \<Rightarrow> structure_lines (Suc depth) sub | File \<Rightarrow> []))
           (sort_key fst listing))"
    by (rule structure_lines.simps)
  moreover have "sorted (map fst (sort_key fst listing))"
    "set (sort_key fst listing) = set listing"
    "length (sort_key fst listing) = length listing"
    by simp_all
  moreover have
    "entry_line depth name (Dir sub) = concat (replicate depth ''  '') @ ''- '' @ name @ ''/''"
    "entry_line depth name File = concat (replicate depth ''  '') @ ''- '' @ name"
    by (simp_all add: indent_def)
  ultimately show ?thesis
    using generate_file_structure_indent [of listing depth] by (intro conjI)
qed

theorem structure_in_name_order_witness:
  "structure_lines 0 example_listing
     = [''- Makefile'', ''- core/'', ''  - a/'', ''  - b.cpp'', ''  - z.h'', ''- main.cpp'']"
proof -
  have "generate_file_structure example_listing [] = structure_lines 0 example_listing"
    using structure_in_name_order [of example_listing 0] by (rule conjunct1)
  with example_listing_lines show ?thesis
    by simp
qed

lemma scan_targets_sections:
  assumes "map (folder_lines p) folders = map Inr sections"
  shows "scan_targets p folders output_lines = Inr (output_lines @ concat sections)"
  using assms
proof (induction folders arbitrary: sections output_lines)
  case Nil
  then show ?case by simp
next
  case (Cons folder folders)
  then obtain ls rest where "sections = ls # rest" "folder_lines p folder = Inr ls"
    "map (folder_lines p) folders = map Inr rest"
    by (cases sections) auto
  with Cons.IH [of rest "output_lines @ ls"] show ?case
    by simp
qed

lemma folder_lines_total:
  assumes "children p folder \<noteq> Some File"
  shows "\<exists>ls. folder_lines p folder = Inr ls"
proof (cases "children p folder")
  case None
  then show ?thesis by (simp add: folder_lines_def)
next
  case (Some node)
  with assms show ?thesis
    by (cases node) (simp_all add: folder_lines_def)
qed

lemma sections_exist:
  assumes "\<forall>f \<in> set folders. children p f \<noteq> Some File"
  shows "\<exists>sections. map (folder_lines p) folders = map Inr sections"
  using assms
proof (induction folders)
  case Nil
  then show ?case by simp
next
  case (Cons f folders)
  then obtain rest where rest: "map (folder_lines p) folders = map Inr rest"
    by auto
  from Cons.prems obtain ls where "folder_lines p f = Inr ls"
    using folder_lines_total by force
  with rest have "map (folder_lines p) (f # folders) = map Inr (ls # rest)"
    by simp
  then show ?case ..
qed

lemma in_concat_single: "[l] \<in> set xss \<Longrightarrow> l \<in> set (concat xss)"
  by (induction xss) auto

lemma join_lines_Cons:
  "ls \<noteq> [] \<Longrightarrow> join_lines (l # ls) = l @ [CHR 0x0A] @ join_lines ls"
  by (cases ls) simp_all

lemma join_lines_append:
  assumes "xs \<noteq> []" "ys \<noteq> []"
  shows "join_lines (xs @ ys) = join_lines xs @ [CHR 0x0A] @ join_lines ys"
  using assms
proof (induction xs)
  case Nil
  then show ?case by simp
next
  case (Cons x xs)
  show ?case
  proof (cases "xs = []")
    case True
    with Cons.prems show ?thesis
      by (simp add: join_lines_Cons)
  next
    case False
    with Cons have "join_lines (xs @ ys) = join_lines xs @ [CHR 0x0A] @ join_lines ys"
      by simp
    with False show ?thesis
      by (simp add: join_lines_Cons)
  qed
qed

text \<open>A line after the first is in the joined text, right after a line break.\<close>

lemma join_lines_has_line:
  assumes "l \<in> set ls"
  shows "\<exists>pre suf. join_lines (h # ls) = pre @ [CHR 0x0A] @ l @ suf"
proof -
  from assms obtain before after where ls: "ls = before @ l # after"
    by (auto dest: split_list)
  have "join_lines (h # ls) = join_lines ((h # before) @ (l # after))"
    by (simp add: ls)
  also have "\<dots> = join_lines (h # before) @ [CHR 0x0A] @ join_lines (l # after)"
    by (rule join_lines_append) simp_all
  also have "join_lines (l # after)
      = l @ (if after = [] then [] else [CHR 0x0A] @ join_lines after)"
    by (simp add: join_lines_Cons)
  finally show ?thesis
    by blast
qed

text \<open>
  C8. A target folder that does not exist adds to the output its heading of absence and
  nothing else, and the run goes on: when no target path is a regular file, every
  target is handled in turn, the output file is written, with the heading of absence as
  a line of its text, and the run ends with the exit status 0.
\<close>

theorem absent_target_placeholder:
  assumes "folder \<in> set target_dirs"
    and "children p folder = None"
    and "\<forall>f \<in> set target_dirs. children p f \<noteq> Some File"
  shows "\<exists>sections.
           map (folder_lines p) target_dirs = map Inr sections
         \<and> folder_lines p folder = Inr [''## `'' @ folder @ ''/` not found.'' @ [CHR 0x0A]]
         \<and> [''## `'' @ folder @ ''/` not found.'' @ [CHR 0x0A]] \<in> set sections
         \<and> main p = (Completed,
              p\<lparr>docs_dir := DocsDir (Some (join_lines
                   ((''# Current Code Directory Structure'' @ [CHR 0x0A]) # concat sections)))\<rparr>)
         \<and> (\<exists>pre suf. docs_dir (snd (main p))
               = DocsDir (Some (pre @ [CHR 0x0A]
                   @ (''## `'' @ folder @ ''/` not found.'' @ [CHR 0x0A]) @ suf)))
         \<and> exit_status (fst (main p)) = 0"
proof -
  from assms(3) obtain sections where
    sections: "map (folder_lines p) target_dirs = map Inr sections"
    using sections_exist by blast
  have line: "folder_lines p folder = Inr [''## `'' @ folder @ ''/` not found.'' @ [CHR 0x0A]]"
    using assms(2) by (simp add: folder_lines_def)
  from assms(1) have "folder_lines p folder \<in> set (map (folder_lines p) target_dirs)"
    by simp
  with sections line
  have mem: "[''## `'' @ folder @ ''/` not found.'' @ [CHR 0x0A]] \<in> set sections"
    by auto
  have run: "main p = (Completed,
              p\<lparr>docs_dir := DocsDir (Some (join_lines
                   ((''# Current Code Directory Structure'' @ [CHR 0x0A]) # concat sections)))\<rparr>)"
    by (simp add: main_def scan_targets_sections [OF sections])
  then have status: "exit_status (fst (main p)) = 0"
    by simp
  from mem have "''## `'' @ folder @ ''/` not found.'' @ [CHR 0x0A] \<in> set (concat sections)"
    by (rule in_concat_single)
  then obtain pre suf where
    "join_lines ((''# Current Code Directory Structure'' @ [CHR 0x0A]) # concat sections)
       = pre @ [CHR 0x0A] @ (''## `'' @ folder @ ''/` not found.'' @ [CHR 0x0A]) @ suf"
    using join_lines_has_line by blast
  with run have "docs_dir (snd (main p))
       = DocsDir (Some (pre @ [CHR 0x0A]
           @ (''## `'' @ folder @ ''/` not found.'' @ [CHR 0x0A]) @ suf))"
    by simp
  then have written: "\<exists>pre suf. docs_dir (snd (main p))
       = DocsDir (Some (pre @ [CHR 0x0A]
           @ (''## `'' @ folder @ ''/` not found.'' @ [CHR 0x0A]) @ suf))"
    by blast
  from sections line mem run written status show ?thesis
    by blast
qed

theorem absent_target_placeholder_witness:
  "''tests'' \<in> set target_dirs
   \<and> children example_project ''tests'' = None
   \<and> children example_project ''src'' \<noteq> Some File
   \<and> fst (main example_project) = Completed
   \<and> docs_dir (snd (main example_project))
     = DocsDir (Some (
         ''# Current Code Directory Structure'' @ [CHR 0x0A, CHR 0x0A]
         @ ''## `src/`'' @ [CHR 0x0A]
         @ ''- Makefile'' @ [CHR 0x0A]
         @ ''- core/'' @ [CHR 0x0A]
         @ ''  - a/'' @ [CHR 0x0A]
         @ ''  - b.cpp'' @ [CHR 0x0A]
         @ ''  - z.h'' @ [CHR 0x0A]
         @ ''- main.cpp'' @ [CHR 0x0A]
         @ [CHR 0x0A]
         @ ''## `tests/` not found.'' @ [CHR 0x0A]))"
proof -
  have a: "''tests'' \<in> set target_dirs"
    by (simp add: target_dirs_def)
  have b: "children example_project ''tests'' = None"
    by (simp add: example_project_def)
  have c: "\<forall>f \<in> set target_dirs. children example_project f \<noteq> Some File"
    by (simp add: target_dirs_def example_project_def)
  have d: "map (folder_lines example_project) target_dirs
     = map Inr [[''## `src/`'',
          ''- Makefile'', ''- core/'', ''  - a/'', ''  - b.cpp'', ''  - z.h'', ''- main.cpp'',
          ''''], [''## `tests/` not found.'' @ [CHR 0x0A]]]"
    by (simp add: folder_lines_def target_dirs_def example_project_def example_listing_lines)
  from absent_target_placeholder [OF a b c] obtain sections where
    s: "map (folder_lines example_project) target_dirs = map Inr sections"
    and m: "main example_project = (Completed,
              example_project\<lparr>docs_dir := DocsDir (Some (join_lines
                   ((''# Current Code Directory Structure'' @ [CHR 0x0A]) # concat sections)))\<rparr>)"
    by blast
  from s d have "map Inr sections = map (Inr :: string list \<Rightarrow> error + string list)
         [[''## `src/`'',
          ''- Makefile'', ''- core/'', ''  - a/'', ''  - b.cpp'', ''  - z.h'', ''- main.cpp'',
          ''''], [''## `tests/` not found.'' @ [CHR 0x0A]]]"
    by (rule trans [OF sym])
  then have "sections = [[''## `src/`'',
          ''- Makefile'', ''- core/'', ''  - a/'', ''  - b.cpp'', ''  - z.h'', ''- main.cpp'',
          ''''], [''## `tests/` not found.'' @ [CHR 0x0A]]]"
    by (rule map_injective) simp
  with m have "fst (main example_project) = Completed"
    and "docs_dir (snd (main example_project))
     = DocsDir (Some (
         ''# Current Code Directory Structure'' @ [CHR 0x0A, CHR 0x0A]
         @ ''## `src/`'' @ [CHR 0x0A]
         @ ''- Makefile'' @ [CHR 0x0A]
         @ ''- core/'' @ [CHR 0x0A]
         @ ''  - a/'' @ [CHR 0x0A]
         @ ''  - b.cpp'' @ [CHR 0x0A]
         @ ''  - z.h'' @ [CHR 0x0A]
         @ ''- main.cpp'' @ [CHR 0x0A]
         @ [CHR 0x0A]
         @ ''## `tests/` not found.'' @ [CHR 0x0A]))"
    by simp_all
  moreover have "children example_project ''src'' \<noteq> Some File"
    by (simp add: example_project_def)
  ultimately show ?thesis
    using a b by (intro conjI)
qed

end
